theory Spec2Isabelle
  imports Complex_Main
begin

section \<open>Values, errors and the outside world\<close>

text \<open>
  The program is one Python script (\<^verbatim>\<open>week10-2.py\<close>): two memoised HTTP readers,
  \<^verbatim>\<open>geocode\<close> and \<^verbatim>\<open>fetch_forecast\<close>, and a module-level pipeline that runs from
  line 57 to line 126. Every value the script handles comes out of \<^verbatim>\<open>r.json()\<close> or out
  of a widget, so the model works on JSON values as Python sees them: a dict is an
  association list in insertion order (its keys are distinct in Python), \<^verbatim>\<open>None\<close> is
  \<open>JNull\<close>. A Python \<^verbatim>\<open>str\<close> is a \<open>string\<close>: the code points below 256. A Python float
  is a \<open>real\<close>; the script does no arithmetic on floats, it only passes them on and
  tests them for zero.
\<close>

datatype json =
    JNull
  | JBool bool
  | JInt int
  | JNum real
  | JStr string
  | JArr "json list"
  | JObj "(string \<times> json) list"

datatype error =
    RequestException
  | HTTPError nat
  | JSONDecodeError
  | AttributeError
  | KeyError string
  | TypeError
  | ValueError

text \<open>Python truthiness, as used by \<^verbatim>\<open>if x\<close>, \<^verbatim>\<open>not x\<close> and \<^verbatim>\<open>x or y\<close>.\<close>

fun truthy :: "json \<Rightarrow> bool" where
  "truthy JNull = False"
| "truthy (JBool b) = b"
| "truthy (JInt i) = (i \<noteq> 0)"
| "truthy (JNum x) = (x \<noteq> 0)"
| "truthy (JStr s) = (s \<noteq> [])"
| "truthy (JArr xs) = (xs \<noteq> [])"
| "truthy (JObj kvs) = (kvs \<noteq> [])"

definition py_or :: "json \<Rightarrow> json \<Rightarrow> json" where
  "py_or a b = (if truthy a then a else b)"

text \<open>
  \<^verbatim>\<open>d.get(k, default)\<close>: only a dict has the method; on any other value Python raises
  AttributeError. \<^verbatim>\<open>d[k]\<close> on a dict raises KeyError for a missing key.
\<close>

definition dict_get :: "(string \<times> json) list \<Rightarrow> string \<Rightarrow> json \<Rightarrow> json" where
  "dict_get kvs k d = (case map_of kvs k of None \<Rightarrow> d | Some v \<Rightarrow> v)"

fun py_get :: "json \<Rightarrow> string \<Rightarrow> json \<Rightarrow> error + json" where
  "py_get (JObj kvs) k d = Inr (dict_get kvs k d)"
| "py_get _ k d = Inl AttributeError"

definition py_getitem :: "(string \<times> json) list \<Rightarrow> string \<Rightarrow> error + json" where
  "py_getitem kvs k = (case map_of kvs k of None \<Rightarrow> Inl (KeyError k) | Some v \<Rightarrow> Inr v)"

text \<open>\<^verbatim>\<open>sep.join(xs)\<close> on a list of strings.\<close>

fun join :: "string \<Rightarrow> string list \<Rightarrow> string" where
  "join sep [] = []"
| "join sep [x] = x"
| "join sep (x # y # ys) = x @ sep @ join sep (y # ys)"

text \<open>
  \<^verbatim>\<open>s.strip()\<close>: Python removes leading and trailing characters for which
  \<^verbatim>\<open>str.isspace\<close> holds; below code point 256 these are 9 to 13, 28 to 32, 133 and 160.
\<close>

definition isspace :: "char \<Rightarrow> bool" where
  "isspace c = (let n = (of_char c :: nat) in
     (9 \<le> n \<and> n \<le> 13) \<or> (28 \<le> n \<and> n \<le> 32) \<or> n = 133 \<or> n = 160)"

definition strip :: "string \<Rightarrow> string" where
  "strip s = rev (dropWhile isspace (rev (dropWhile isspace s)))"

text \<open>
  An outbound \<^verbatim>\<open>requests.get(url, params=..., timeout=...)\<close> and what comes back. A
  response carries its status and its body as parsed by \<^verbatim>\<open>r.json()\<close>: \<open>None\<close> when
  the body is not valid JSON. \<^verbatim>\<open>r.raise_for_status()\<close> raises for 4xx and 5xx.
\<close>

record request =
  url :: string
  params :: "(string \<times> json) list"
  timeout :: nat

record response =
  status_code :: nat
  body :: "json option"

datatype series = Values "json list" | Datetimes "int list"

text \<open>
  What the script cannot decide by itself is a parameter: the remote services (the
  answer to the \<open>n\<close>-th request ever sent, transport failure as \<open>Inl\<close>), the user's
  choice in the radio widget, and four library functions whose results the script
  only passes on: \<^verbatim>\<open>str\<close> of a number or container, \<^verbatim>\<open>float\<close> of a string,
  \<^verbatim>\<open>pd.to_datetime\<close> of a column, and \<^verbatim>\<open>pd.DataFrame\<close> of anything that is not a dict
  of equally long arrays.
\<close>

record world =
  http_get :: "nat \<Rightarrow> request \<Rightarrow> error + response"
  radio :: "string list \<Rightarrow> string"
  str_other :: "json \<Rightarrow> string"
  float_of_str :: "string \<Rightarrow> real option"
  to_datetime :: "json list \<Rightarrow> error + int list"
  frame_other :: "json \<Rightarrow> error + (string \<times> series) list"

definition raise_for_status :: "response \<Rightarrow> error + unit" where
  "raise_for_status r =
     (if 400 \<le> status_code r \<and> status_code r < 600 then Inl (HTTPError (status_code r))
      else Inr ())"

definition r_json :: "response \<Rightarrow> error + json" where
  "r_json r = (case body r of None \<Rightarrow> Inl JSONDecodeError | Some j \<Rightarrow> Inr j)"

section \<open>The two cached clients\<close>

text \<open>
  The process-wide state: the two \<^verbatim>\<open>st.cache_data\<close> stores, each from the argument
  tuple to the time of storing and the stored value, and the log of the requests sent
  so far (oldest first).
\<close>

type_synonym fc_key = "real \<times> real \<times> json \<times> string list \<times> string list \<times> int"

record state =
  geo_cache :: "(string \<times> int) \<rightharpoonup> (nat \<times> json)"
  fc_cache :: "fc_key \<rightharpoonup> (nat \<times> json)"
  sent :: "request list"

definition GEOCODE_URL :: string where
  "GEOCODE_URL = ''https://geocoding-api.open-meteo.com/v1/search''"

definition FORECAST_URL :: string where
  "FORECAST_URL = ''https://api.open-meteo.com/v1/forecast''"

text \<open>Sending one request: the world answers, the request is logged.\<close>

definition requests_get :: "world \<Rightarrow> state \<Rightarrow> request \<Rightarrow> (error + response) \<times> state" where
  "requests_get w s rq = (http_get w (length (sent s)) rq, s\<lparr>sent := sent s @ [rq]\<rparr>)"

text \<open>Lines 19 to 22 and 37 to 39: status check, then the parsed body.\<close>

definition checked_json :: "error + response \<Rightarrow> error + json" where
  "checked_json x =
     (case x of
        Inl e \<Rightarrow> Inl e
      | Inr r \<Rightarrow> (case raise_for_status r of Inl e \<Rightarrow> Inl e | Inr _ \<Rightarrow> r_json r))"

text \<open>The body of \<^verbatim>\<open>geocode\<close> (lines 18 to 22), without its decorator.\<close>

definition geocode_request :: "string \<Rightarrow> int \<Rightarrow> request" where
  "geocode_request query limit =
     \<lparr>url = GEOCODE_URL, params = [(''name'', JStr query), (''count'', JInt limit)],
      timeout = 10\<rparr>"

definition geocode_body :: "world \<Rightarrow> state \<Rightarrow> string \<Rightarrow> int \<Rightarrow> (error + json) \<times> state" where
  "geocode_body w s query limit =
     (let (x, s') = requests_get w s (geocode_request query limit) in
      (case checked_json x of
         Inl e \<Rightarrow> Inl e
       | Inr j \<Rightarrow> py_get j ''results'' (JArr []), s'))"

text \<open>
  The body of \<^verbatim>\<open>fetch_forecast\<close> (lines 25 to 39). The dict literal of lines 26 to
  34 in its order, then the comprehension of line 36 that drops the \<^verbatim>\<open>None\<close> values.
\<close>

definition forecast_params ::
  "real \<Rightarrow> real \<Rightarrow> json \<Rightarrow> string list \<Rightarrow> string list \<Rightarrow> int \<Rightarrow> (string \<times> json) list" where
  "forecast_params lat lon timezone_str hourly_vars daily_vars days =
     filter (\<lambda>(k, v). v \<noteq> JNull)
       [(''latitude'', JNum lat),
        (''longitude'', JNum lon),
        (''hourly'', if hourly_vars \<noteq> [] then JStr (join '','' hourly_vars) else JNull),
        (''daily'', if daily_vars \<noteq> [] then JStr (join '','' daily_vars) else JNull),
        (''current_weather'', JStr ''true''),
        (''forecast_days'', JInt days),
        (''timezone'', timezone_str)]"

definition forecast_request ::
  "real \<Rightarrow> real \<Rightarrow> json \<Rightarrow> string list \<Rightarrow> string list \<Rightarrow> int \<Rightarrow> request" where
  "forecast_request lat lon timezone_str hourly_vars daily_vars days =
     \<lparr>url = FORECAST_URL,
      params = forecast_params lat lon timezone_str hourly_vars daily_vars days,
      timeout = 15\<rparr>"

definition fetch_forecast_body ::
  "world \<Rightarrow> state \<Rightarrow> real \<Rightarrow> real \<Rightarrow> json \<Rightarrow> string list \<Rightarrow> string list \<Rightarrow> int
     \<Rightarrow> (error + json) \<times> state" where
  "fetch_forecast_body w s lat lon timezone_str hourly_vars daily_vars days =
     (let (x, s') =
            requests_get w s (forecast_request lat lon timezone_str hourly_vars daily_vars days)
      in (checked_json x, s'))"

text \<open>
  Modelled from the spec: the memoiser \<^verbatim>\<open>st.cache_data(ttl=...)\<close> of lines 17 and 24,
  whose code belongs to the Streamlit library; the script holds only its use. Sections
  4.1, 4.2, 5 and 9 describe it: a store from the full argument tuple to the value and
  its expiry, with get-or-fetch semantics; an entry serves calls for a fixed duration
  after it was stored; a call that fails stores nothing. \<open>now\<close> is the clock in
  seconds.
\<close>

definition cache_lookup :: "nat \<Rightarrow> nat \<Rightarrow> (nat \<times> json) option \<Rightarrow> json option" where
  "cache_lookup ttl now entry =
     (case entry of
        None \<Rightarrow> None
      | Some (stored, v) \<Rightarrow> if now < stored + ttl then Some v else None)"

definition geocode :: "world \<Rightarrow> nat \<Rightarrow> state \<Rightarrow> string \<Rightarrow> int \<Rightarrow> (error + json) \<times> state" where
  "geocode w now s query limit =
     (case cache_lookup (60 * 60) now (geo_cache s (query, limit)) of
        Some v \<Rightarrow> (Inr v, s)
      | None \<Rightarrow>
          (case geocode_body w s query limit of
             (Inl e, s') \<Rightarrow> (Inl e, s')
           | (Inr v, s') \<Rightarrow>
               (Inr v, s'\<lparr>geo_cache := (geo_cache s')((query, limit) \<mapsto> (now, v))\<rparr>)))"

definition fetch_forecast ::
  "world \<Rightarrow> nat \<Rightarrow> state \<Rightarrow> real \<Rightarrow> real \<Rightarrow> json \<Rightarrow> string list \<Rightarrow> string list \<Rightarrow> int
     \<Rightarrow> (error + json) \<times> state" where
  "fetch_forecast w now s lat lon timezone_str hourly_vars daily_vars days =
     (let key = (lat, lon, timezone_str, hourly_vars, daily_vars, days) in
      case cache_lookup (60 * 10) now (fc_cache s key) of
        Some v \<Rightarrow> (Inr v, s)
      | None \<Rightarrow>
          (case fetch_forecast_body w s lat lon timezone_str hourly_vars daily_vars days of
             (Inl e, s') \<Rightarrow> (Inl e, s')
           | (Inr v, s') \<Rightarrow> (Inr v, s'\<lparr>fc_cache := (fc_cache s')(key \<mapsto> (now, v))\<rparr>)))"

section \<open>The search pipeline\<close>

text \<open>
  The widgets of lines 44 to 53 give the run its inputs. \<^verbatim>\<open>st.number_input\<close> and
  \<^verbatim>\<open>st.slider\<close> return integers, \<^verbatim>\<open>st.multiselect\<close> a list of the chosen options.
\<close>

record inputs =
  q :: string
  max_results :: int
  days :: int
  hourly_options :: "string list"
  daily_options :: "string list"
  search_btn :: bool

definition hourly_choices :: "string list" where
  "hourly_choices =
     [''temperature_2m'', ''apparent_temperature'', ''relativehumidity_2m'', ''precipitation'',
      ''windspeed_10m'', ''winddirection_10m'', ''weathercode'']"

definition daily_choices :: "string list" where
  "daily_choices =
     [''temperature_2m_max'', ''temperature_2m_min'', ''precipitation_sum'', ''weathercode'']"

text \<open>
  What a run does that can be seen from outside, in order: the widgets it draws and the
  two client functions it invokes. The texts the script shows are fixed, so a
  constructor stands for each; the values shown are kept as arguments.
\<close>

datatype event =
    Spinner_geocode
  | Call_geocode string int
  | Warning_no_results
  | Subheader_results
  | Radio "string list"
  | Markdown_selection string real real json
  | Spinner_forecast
  | Call_fetch_forecast real real json "string list" "string list" int
  | Metric_temperature json
  | Write_wind json json
  | Write_observed json
  | Write_no_current
  | Subheader_hourly
  | Pyplot string series series
  | Subheader_daily
  | Dataframe "(string \<times> series) list"
  | Subheader_map
  | Map real real
  | Expander_json json
  | Info_start

text \<open>
  A block of the script yields the events it produced and the exception that stopped
  it, if any. \<open>seq\<close> runs a second block after a first: nothing runs after an
  exception.
\<close>

type_synonym outcome = "event list \<times> error option"

definition seq :: "outcome \<Rightarrow> outcome \<Rightarrow> outcome" where
  "seq a b = (case a of (es, Some e) \<Rightarrow> (es, Some e) | (es, None) \<Rightarrow> (es @ fst b, snd b))"

subsection \<open>Candidates and the selection (lines 64 to 75)\<close>

definition py_str :: "world \<Rightarrow> json \<Rightarrow> string" where
  "py_str w j =
     (case j of
        JStr s \<Rightarrow> s
      | JNull \<Rightarrow> ''None''
      | JBool b \<Rightarrow> (if b then ''True'' else ''False'')
      | _ \<Rightarrow> str_other w j)"

definition py_float :: "world \<Rightarrow> json \<Rightarrow> error + real" where
  "py_float w j =
     (case j of
        JInt i \<Rightarrow> Inr (of_int i)
      | JNum x \<Rightarrow> Inr x
      | JBool b \<Rightarrow> Inr (if b then 1 else 0)
      | JStr s \<Rightarrow> (case float_of_str w s of None \<Rightarrow> Inl ValueError | Some x \<Rightarrow> Inr x)
      | _ \<Rightarrow> Inl TypeError)"

text \<open>\<^verbatim>\<open>for r in results\<close>: what iterating a truthy JSON value yields.\<close>

definition py_iter :: "json \<Rightarrow> error + json list" where
  "py_iter j =
     (case j of
        JArr xs \<Rightarrow> Inr xs
      | JObj kvs \<Rightarrow> Inr (map (\<lambda>(k, v). JStr k) kvs)
      | JStr s \<Rightarrow> Inr (map (\<lambda>c. JStr [c]) s)
      | _ \<Rightarrow> Inl TypeError)"

record row =
  row_name :: string
  row_lat :: json
  row_lon :: json
  row_timezone :: json

text \<open>Line 66: the f-string of the display name.\<close>

definition display_name :: "world \<Rightarrow> (string \<times> json) list \<Rightarrow> string" where
  "display_name w r =
     py_str w (dict_get r ''name'' JNull) @ '', '' @ py_str w (dict_get r ''country'' JNull)
       @ '' ('' @ py_str w (py_or (dict_get r ''admin1'' JNull) (JStr [])) @ '')''"

text \<open>
  Lines 66 and 67 for one candidate: \<^verbatim>\<open>r.get\<close> needs a dict, \<^verbatim>\<open>r["latitude"]\<close> and
  \<^verbatim>\<open>r["longitude"]\<close> need their keys.
\<close>

definition mk_row :: "world \<Rightarrow> json \<Rightarrow> error + row" where
  "mk_row w r =
     (case r of
        JObj kvs \<Rightarrow>
          (case py_getitem kvs ''latitude'' of
             Inl e \<Rightarrow> Inl e
           | Inr la \<Rightarrow>
               (case py_getitem kvs ''longitude'' of
                  Inl e \<Rightarrow> Inl e
                | Inr lo \<Rightarrow>
                    Inr \<lparr>row_name = display_name w kvs, row_lat = la, row_lon = lo,
                         row_timezone = dict_get kvs ''timezone'' JNull\<rparr>))
      | _ \<Rightarrow> Inl AttributeError)"

fun build_rows :: "world \<Rightarrow> json list \<Rightarrow> error + row list" where
  "build_rows w [] = Inr []"
| "build_rows w (r # rs) =
     (case mk_row w r of
        Inl e \<Rightarrow> Inl e
      | Inr x \<Rightarrow> (case build_rows w rs of Inl e \<Rightarrow> Inl e | Inr xs \<Rightarrow> Inr (x # xs)))"

text \<open>\<^verbatim>\<open>xs.index(y)\<close>: the first position of \<open>y\<close>, ValueError when there is none.\<close>

fun py_index :: "'a list \<Rightarrow> 'a \<Rightarrow> error + nat" where
  "py_index [] y = Inl ValueError"
| "py_index (x # xs) y =
     (if x = y then Inr 0
      else (case py_index xs y of Inl e \<Rightarrow> Inl e | Inr i \<Rightarrow> Inr (Suc i)))"

text \<open>
  Lines 70 to 74. The data frame of line 68 only holds the rows; \<^verbatim>\<open>df["name"].tolist()\<close>
  is the list of their names and \<^verbatim>\<open>df.iloc[idx]\<close> the row at \<open>idx\<close>, which is in range
  whenever \<^verbatim>\<open>index\<close> returned it. The values of a row are kept as the candidate
  had them; how pandas stores a column that mixes numbers and nulls is not modelled.
\<close>

definition resolve :: "world \<Rightarrow> row list \<Rightarrow> string \<Rightarrow> error + (real \<times> real \<times> json)" where
  "resolve w rows sel =
     (case py_index (map row_name rows) sel of
        Inl e \<Rightarrow> Inl e
      | Inr idx \<Rightarrow>
          (let sel_row = rows ! idx in
           case py_float w (row_lat sel_row) of
             Inl e \<Rightarrow> Inl e
           | Inr lat \<Rightarrow>
               (case py_float w (row_lon sel_row) of
                  Inl e \<Rightarrow> Inl e
                | Inr lon \<Rightarrow> Inr (lat, lon, py_or (row_timezone sel_row) (JStr ''UTC'')))))"

subsection \<open>Rendering the forecast document (lines 81 to 124)\<close>

text \<open>Lines 82 to 89: the current conditions.\<close>

definition current_summary :: "json \<Rightarrow> outcome" where
  "current_summary data =
     (case py_get data ''current_weather'' (JObj []) of
        Inl e \<Rightarrow> ([], Some e)
      | Inr current \<Rightarrow>
          if truthy current then
            (case current of
               JObj c \<Rightarrow>
                 ([Metric_temperature (dict_get c ''temperature'' JNull),
                   Write_wind (dict_get c ''windspeed'' JNull) (dict_get c ''winddirection'' JNull),
                   Write_observed (dict_get c ''time'' JNull)], None)
             | _ \<Rightarrow> ([], Some AttributeError))
          else ([Write_no_current], None))"

text \<open>
  \<^verbatim>\<open>pd.DataFrame(block)\<close> followed by \<^verbatim>\<open>df['time'] = pd.to_datetime(df['time'])\<close>
  (lines 94 to 96 and 113 to 114). A dict of equally long arrays becomes one column
  per key, in the dict's order; the converted column takes the place of the old one.
\<close>

type_synonym frame = "(string \<times> series) list"

fun is_array :: "json \<Rightarrow> bool" where
  "is_array (JArr xs) = True"
| "is_array _ = False"

fun items :: "json \<Rightarrow> json list" where
  "items (JArr xs) = xs"
| "items _ = []"

definition parallel_arrays :: "(string \<times> json) list \<Rightarrow> bool" where
  "parallel_arrays kvs =
     (list_all (\<lambda>(k, v). is_array v) kvs \<and>
      list_all (\<lambda>(k, v). length (items v) = length (items (snd (hd kvs)))) kvs)"

definition DataFrame :: "world \<Rightarrow> json \<Rightarrow> error + frame" where
  "DataFrame w j =
     (case j of
        JObj kvs \<Rightarrow>
          if kvs \<noteq> [] \<and> parallel_arrays kvs then Inr (map (\<lambda>(k, v). (k, Values (items v))) kvs)
          else frame_other w j
      | _ \<Rightarrow> frame_other w j)"

definition convert_time :: "world \<Rightarrow> frame \<Rightarrow> error + frame" where
  "convert_time w df =
     (case map_of df ''time'' of
        None \<Rightarrow> Inl (KeyError ''time'')
      | Some (Datetimes ts) \<Rightarrow> Inr df
      | Some (Values xs) \<Rightarrow>
          (case to_datetime w xs of
             Inl e \<Rightarrow> Inl e
           | Inr ts \<Rightarrow> Inr (map (\<lambda>(k, c). if k = ''time'' then (k, Datetimes ts) else (k, c)) df)))"

definition time_frame :: "world \<Rightarrow> json \<Rightarrow> error + frame" where
  "time_frame w block =
     (case DataFrame w block of Inl e \<Rightarrow> Inl e | Inr df \<Rightarrow> convert_time w df)"

text \<open>
  Lines 98 to 107: one chart for each selected variable that is a column, in the order
  of the selection; a variable that is no column draws nothing.
\<close>

definition chart :: "frame \<Rightarrow> string \<Rightarrow> event list" where
  "chart df_hour var =
     (case (map_of df_hour var, map_of df_hour ''time'') of
        (Some ys, Some ts) \<Rightarrow> [Pyplot var ts ys]
      | _ \<Rightarrow> [])"

definition hourly_charts :: "world \<Rightarrow> json \<Rightarrow> string list \<Rightarrow> outcome" where
  "hourly_charts w data hourly_opts =
     (case py_get data ''hourly'' (JObj []) of
        Inl e \<Rightarrow> ([], Some e)
      | Inr hourly \<Rightarrow>
          if truthy hourly \<and> hourly_opts \<noteq> [] then
            (case time_frame w hourly of
               Inl e \<Rightarrow> ([], Some e)
             | Inr df_hour \<Rightarrow> (Subheader_hourly # concat (map (chart df_hour) hourly_opts), None))
          else ([], None))"

text \<open>
  Lines 110 to 115: \<^verbatim>\<open>df[labels]\<close> takes the columns named by \<open>labels\<close>, in that
  order, and raises KeyError for a label that is no column.
\<close>

fun frame_select :: "frame \<Rightarrow> string list \<Rightarrow> error + frame" where
  "frame_select df [] = Inr []"
| "frame_select df (c # cs) =
     (case map_of df c of
        None \<Rightarrow> Inl (KeyError c)
      | Some col \<Rightarrow>
          (case frame_select df cs of Inl e \<Rightarrow> Inl e | Inr rest \<Rightarrow> Inr ((c, col) # rest)))"

definition daily_table :: "world \<Rightarrow> json \<Rightarrow> string list \<Rightarrow> outcome" where
  "daily_table w data daily_opts =
     (case py_get data ''daily'' (JObj []) of
        Inl e \<Rightarrow> ([], Some e)
      | Inr daily \<Rightarrow>
          if truthy daily \<and> daily_opts \<noteq> [] then
            (case time_frame w daily of
               Inl e \<Rightarrow> ([Subheader_daily], Some e)
             | Inr df_daily \<Rightarrow>
                 (case frame_select df_daily
                         (''time'' # filter (\<lambda>c. c \<in> set daily_opts) (map fst df_daily)) of
                    Inl e \<Rightarrow> ([Subheader_daily], Some e)
                  | Inr tbl \<Rightarrow> ([Subheader_daily, Dataframe tbl], None)))
          else ([], None))"

definition render :: "world \<Rightarrow> inputs \<Rightarrow> real \<Rightarrow> real \<Rightarrow> json \<Rightarrow> outcome" where
  "render w inp lat lon data =
     seq (current_summary data)
       (seq (hourly_charts w data (hourly_options inp))
          (seq (daily_table w data (daily_options inp))
             ([Subheader_map, Map lat lon, Expander_json data], None)))"

subsection \<open>The run (lines 57 to 126)\<close>

definition show_results :: "world \<Rightarrow> nat \<Rightarrow> inputs \<Rightarrow> state \<Rightarrow> json \<Rightarrow> outcome \<times> state" where
  "show_results w now inp s results =
     (case py_iter results of
        Inl e \<Rightarrow> (([], Some e), s)
      | Inr cands \<Rightarrow>
          (case build_rows w cands of
             Inl e \<Rightarrow> (([], Some e), s)
           | Inr rows \<Rightarrow>
               (let names = map row_name rows; sel = radio w names in
                case resolve w rows sel of
                  Inl e \<Rightarrow> (([Subheader_results, Radio names], Some e), s)
                | Inr (lat, lon, tz) \<Rightarrow>
                    (let shown = [Subheader_results, Radio names, Markdown_selection sel lat lon tz,
                                  Spinner_forecast,
                                  Call_fetch_forecast lat lon tz (hourly_options inp)
                                    (daily_options inp) (days inp)]
                     in case fetch_forecast w now s lat lon tz (hourly_options inp)
                               (daily_options inp) (days inp) of
                          (Inl e, s') \<Rightarrow> ((shown, Some e), s')
                        | (Inr data, s') \<Rightarrow> (seq (shown, None) (render w inp lat lon data), s')))))"

definition pipeline :: "world \<Rightarrow> nat \<Rightarrow> inputs \<Rightarrow> state \<Rightarrow> outcome \<times> state" where
  "pipeline w now inp s =
     (if search_btn inp \<and> strip (q inp) \<noteq> [] then
        (let called = [Spinner_geocode, Call_geocode (q inp) (max_results inp)] in
         case geocode w now s (q inp) (max_results inp) of
           (Inl e, s') \<Rightarrow> ((called, Some e), s')
         | (Inr results, s') \<Rightarrow>
             if \<not> truthy results then ((called @ [Warning_no_results], None), s')
             else (case show_results w now inp s' results of
                     (out, s'') \<Rightarrow> (seq (called, None) out, s'')))
      else (([Info_start], None), s))"

section \<open>Auxiliary notions for the properties\<close>

text \<open>
  The cache window of an argument tuple of \<^verbatim>\<open>fetch_forecast\<close>: the time \<open>t\<close> lies
  before the expiry of the entry stored for the tuple.
\<close>

definition fc_window :: "state \<Rightarrow> fc_key \<Rightarrow> nat \<Rightarrow> bool" where
  "fc_window s key t =
     (case fc_cache s key of None \<Rightarrow> False | Some (stored, v) \<Rightarrow> t < stored + 60 * 10)"

text \<open>
  A block of the forecast document is a time series when it is a non-empty dict of
  equally long arrays, one of them under \<open>time\<close> and accepted by
  \<^verbatim>\<open>pd.to_datetime\<close>. \<open>columns\<close> are the names of a block's arrays, in the order of
  the response; a value that is no dict has none.
\<close>

definition time_series :: "world \<Rightarrow> json \<Rightarrow> bool" where
  "time_series w block =
     (case block of
        JObj cols \<Rightarrow>
          cols \<noteq> [] \<and> distinct (map fst cols) \<and> parallel_arrays cols \<and>
          (case map_of cols ''time'' of
             Some (JArr ts) \<Rightarrow> (case to_datetime w ts of Inr dts \<Rightarrow> True | Inl e \<Rightarrow> False)
           | _ \<Rightarrow> False)
      | _ \<Rightarrow> False)"

fun columns :: "json \<Rightarrow> string list" where
  "columns (JObj cols) = map fst cols"
| "columns _ = []"

text \<open>The frame of a dict of arrays, and a frame with its \<open>time\<close> column converted.\<close>

definition raw_frame :: "(string \<times> json) list \<Rightarrow> frame" where
  "raw_frame cols = map (\<lambda>(k, v). (k, Values (items v))) cols"

definition timed :: "int list \<Rightarrow> frame \<Rightarrow> frame" where
  "timed dts df = map (\<lambda>(k, c). if k = ''time'' then (k, Datetimes dts) else (k, c)) df"

text \<open>The titles of the charts among the events of a run, in order.\<close>

fun chart_titles :: "event list \<Rightarrow> string list" where
  "chart_titles [] = []"
| "chart_titles (Pyplot var ts ys # es) = var # chart_titles es"
| "chart_titles (e # es) = chart_titles es"

subsection \<open>Example worlds\<close>

text \<open>
  A world whose services answer every request with status 200 and a fixed body, one
  for the geocoding endpoint and one for the forecast endpoint, and whose user keeps
  the radio's first option; a world whose network is down; and the state of a fresh
  process.
\<close>

definition demo_world :: "json option \<Rightarrow> json option \<Rightarrow> world" where
  "demo_world geo fc =
     \<lparr>http_get = (\<lambda>n rq. Inr \<lparr>status_code = 200,
                               body = (if url rq = GEOCODE_URL then geo else fc)\<rparr>),
      radio = (\<lambda>names. case names of [] \<Rightarrow> [] | x # xs \<Rightarrow> x),
      str_other = (\<lambda>j. ''?''),
      float_of_str = (\<lambda>s. None),
      to_datetime = (\<lambda>xs. Inr (map (\<lambda>j. case j of JInt i \<Rightarrow> i | _ \<Rightarrow> 0) xs)),
      frame_other = (\<lambda>j. Inl ValueError)\<rparr>"

definition cold :: state where
  "cold = \<lparr>geo_cache = Map.empty, fc_cache = Map.empty, sent = []\<rparr>"

text \<open>Two candidates that render to the same display name.\<close>

definition two_places :: "json list" where
  "two_places =
     [JObj [(''name'', JStr ''Springfield''), (''country'', JStr ''United States''),
            (''admin1'', JNull), (''latitude'', JNum 39.8), (''longitude'', JNum (-89.6))],
      JObj [(''name'', JStr ''Springfield''), (''country'', JStr ''United States''),
            (''latitude'', JNum 37.2), (''longitude'', JNum (-93.3)),
            (''timezone'', JStr ''America/Chicago'')]]"

definition two_rows :: "row list" where
  "two_rows =
     [\<lparr>row_name = ''Springfield, United States ()'', row_lat = JNum 39.8,
       row_lon = JNum (-89.6), row_timezone = JNull\<rparr>,
      \<lparr>row_name = ''Springfield, United States ()'', row_lat = JNum 37.2,
       row_lon = JNum (-93.3), row_timezone = JStr ''America/Chicago''\<rparr>]"

definition demo_inputs :: "string \<Rightarrow> inputs" where
  "demo_inputs query =
     \<lparr>q = query, max_results = 5, days = 7,
      hourly_options = [''temperature_2m'', ''precipitation''],
      daily_options = [''temperature_2m_max'', ''temperature_2m_min'', ''precipitation_sum''],
      search_btn = True\<rparr>"

text \<open>A forecast document; its daily rows are not in chronological order.\<close>

definition sample_current :: "(string \<times> json) list" where
  "sample_current =
     [(''temperature'', JNum 21.5), (''windspeed'', JNum 3.2),
      (''winddirection'', JInt 270), (''time'', JStr ''2024-05-01T12:00'')]"

definition sample_hourly :: "(string \<times> json) list" where
  "sample_hourly =
     [(''time'', JArr [JInt 0, JInt 3600, JInt 7200]),
      (''temperature_2m'', JArr [JNum 20, JNum 21.5, JNum 22]),
      (''precipitation'', JArr [JInt 0, JInt 0, JNum 0.4])]"

definition sample_daily :: "(string \<times> json) list" where
  "sample_daily =
     [(''time'', JArr [JInt 86400, JInt 0]),
      (''temperature_2m_max'', JArr [JNum 24, JNum 22.5]),
      (''weathercode'', JArr [JInt 3, JInt 61]),
      (''precipitation_sum'', JArr [JInt 0, JNum 1.2])]"

definition sample_fields :: "(string \<times> json) list" where
  "sample_fields =
     [(''current_weather'', JObj sample_current), (''hourly'', JObj sample_hourly),
      (''daily'', JObj sample_daily)]"

definition sample_doc :: json where
  "sample_doc = JObj sample_fields"

section \<open>Properties of the forecast client\<close>

lemma forecast_params_hourly:
  "map_of (forecast_params lat lon tz hv dv n) ''hourly'' =
     (if hv = [] then None else Some (JStr (join '','' hv)))"
  by (simp add: forecast_params_def)

lemma forecast_params_daily:
  "map_of (forecast_params lat lon tz hv dv n) ''daily'' =
     (if dv = [] then None else Some (JStr (join '','' dv)))"
  by (simp add: forecast_params_def)

lemma fetch_forecast_sent:
  "sent (snd (fetch_forecast w now s lat lon tz hv dv n)) = sent s \<or>
   sent (snd (fetch_forecast w now s lat lon tz hv dv n)) =
     sent s @ [forecast_request lat lon tz hv dv n]"
  by (auto simp: fetch_forecast_def fetch_forecast_body_def requests_get_def Let_def
      split: option.splits sum.splits prod.splits)

text \<open>
  C1. Whatever request a call of \<^verbatim>\<open>fetch_forecast\<close> sends, its parameter map has no
  \<open>hourly\<close> key when the hourly selection is empty and otherwise maps \<open>hourly\<close> to
  the comma-joined names; the same for \<open>daily\<close>.
\<close>

theorem fetch_forecast_omits_empty_selection:
  assumes "sent (snd (fetch_forecast w now s lat lon tz hv dv n)) = sent s @ rqs"
    and "rq \<in> set rqs"
  shows "map_of (params rq) ''hourly'' = (if hv = [] then None else Some (JStr (join '','' hv)))
       \<and> map_of (params rq) ''daily'' = (if dv = [] then None else Some (JStr (join '','' dv)))"
proof -
  from fetch_forecast_sent [of w now s lat lon tz hv dv n] assms
  have "rq = forecast_request lat lon tz hv dv n" by auto
  then show ?thesis
    by (simp add: forecast_request_def forecast_params_hourly forecast_params_daily)
qed

lemma demo_fetch_sent:
  "sent (snd (fetch_forecast (demo_world g f) now cold lat lon tz hv dv n)) =
     sent cold @ [forecast_request lat lon tz hv dv n]"
  by (simp add: fetch_forecast_def fetch_forecast_body_def requests_get_def cold_def
      cache_lookup_def checked_json_def split: prod.splits sum.splits)

theorem fetch_forecast_omits_empty_selection_witness:
  "map_of (params (forecast_request 37.5 127 (JStr ''UTC'') [] [''weathercode'', ''precipitation_sum''] 7))
       ''hourly'' = None
   \<and> map_of (params (forecast_request 37.5 127 (JStr ''UTC'') [] [''weathercode'', ''precipitation_sum''] 7))
       ''daily'' = Some (JStr ''weathercode,precipitation_sum'')"
  using fetch_forecast_omits_empty_selection
    [OF demo_fetch_sent [of None None 0 "37.5" 127 "JStr ''UTC''" "[]"
          "[''weathercode'', ''precipitation_sum'']" 7],
     of "forecast_request 37.5 127 (JStr ''UTC'') [] [''weathercode'', ''precipitation_sum''] 7"]
  by simp

text \<open>
  C2. Let a call of \<^verbatim>\<open>fetch_forecast\<close> return a document, and let a second call with
  the same arguments come within the cache window of the entry for these arguments:
  ten minutes from the first call when that call had to ask the service, and until the
  expiry of the entry that served it otherwise. Then the second call returns the same document and leaves the state as it is, so
  that it sends nothing, whatever the services would answer by then; both calls
  together send at most one request.
\<close>

theorem fetch_forecast_idempotent_in_window:
  assumes first: "fetch_forecast w t1 s lat lon tz hv dv n = (Inr v, s1)"
    and window: "fc_window s1 (lat, lon, tz, hv, dv, n) t2"
  shows "fetch_forecast w' t2 s1 lat lon tz hv dv n = (Inr v, s1)
       \<and> length (sent s1) \<le> length (sent s) + 1"
proof (cases "cache_lookup (60 * 10) t1 (fc_cache s (lat, lon, tz, hv, dv, n))")
  case None
  with first obtain s' where
    b: "fetch_forecast_body w s lat lon tz hv dv n = (Inr v, s')"
    and s1: "s1 = s'\<lparr>fc_cache := (fc_cache s')((lat, lon, tz, hv, dv, n) \<mapsto> (t1, v))\<rparr>"
    by (auto simp: fetch_forecast_def split: prod.splits sum.splits)
  from b have "sent s' = sent s @ [forecast_request lat lon tz hv dv n]"
    by (auto simp: fetch_forecast_body_def requests_get_def split: prod.splits)
  with s1 have len: "length (sent s1) \<le> length (sent s) + 1" by simp
  from s1 window have "cache_lookup (60 * 10) t2 (fc_cache s1 (lat, lon, tz, hv, dv, n)) = Some v"
    by (simp add: fc_window_def cache_lookup_def)
  then have "fetch_forecast w' t2 s1 lat lon tz hv dv n = (Inr v, s1)"
    by (simp add: fetch_forecast_def)
  with len show ?thesis by simp
next
  case (Some v')
  with first have eq: "v' = v" "s1 = s" by (auto simp: fetch_forecast_def)
  from Some eq obtain stored where e: "fc_cache s1 (lat, lon, tz, hv, dv, n) = Some (stored, v)"
    by (auto simp: cache_lookup_def split: option.splits if_splits)
  with window have "cache_lookup (60 * 10) t2 (fc_cache s1 (lat, lon, tz, hv, dv, n)) = Some v"
    by (simp add: fc_window_def cache_lookup_def)
  then have "fetch_forecast w' t2 s1 lat lon tz hv dv n = (Inr v, s1)"
    by (simp add: fetch_forecast_def)
  with eq show ?thesis by simp
qed

lemma demo_fetch_cold:
  "fetch_forecast (demo_world g (Some d)) now cold lat lon tz hv dv n =
     (Inr d, \<lparr>geo_cache = Map.empty,
              fc_cache = [(lat, lon, tz, hv, dv, n) \<mapsto> (now, d)],
              sent = [forecast_request lat lon tz hv dv n]\<rparr>)"
  by (simp add: fetch_forecast_def fetch_forecast_body_def requests_get_def cold_def
      cache_lookup_def checked_json_def raise_for_status_def r_json_def demo_world_def
      forecast_request_def FORECAST_URL_def GEOCODE_URL_def)

theorem fetch_forecast_idempotent_in_window_witness:
  "fetch_forecast (demo_world None None) 650
       \<lparr>geo_cache = Map.empty,
        fc_cache = [(37.5, 127, JStr ''UTC'', [''temperature_2m''], [], 7) \<mapsto> (100, sample_doc)],
        sent = [forecast_request 37.5 127 (JStr ''UTC'') [''temperature_2m''] [] 7]\<rparr>
       37.5 127 (JStr ''UTC'') [''temperature_2m''] [] 7
     = (Inr sample_doc,
        \<lparr>geo_cache = Map.empty,
         fc_cache = [(37.5, 127, JStr ''UTC'', [''temperature_2m''], [], 7) \<mapsto> (100, sample_doc)],
         sent = [forecast_request 37.5 127 (JStr ''UTC'') [''temperature_2m''] [] 7]\<rparr>)
   \<and> length [forecast_request 37.5 127 (JStr ''UTC'') [''temperature_2m''] [] 7]
       \<le> length (sent cold) + 1"
  using fetch_forecast_idempotent_in_window
    [OF demo_fetch_cold [of None sample_doc 100 "37.5" 127 "JStr ''UTC''" "[''temperature_2m'']" "[]" 7],
     of 650 "demo_world None None"]
  by (simp add: fc_window_def)

section \<open>Properties of the geocode client\<close>

lemma geocode_miss:
  assumes "cache_lookup (60 * 60) now (geo_cache s (query, limit)) = None"
    and "http_get w (length (sent s)) (geocode_request query limit) = Inr resp"
    and "\<not> (400 \<le> status_code resp \<and> status_code resp < 600)"
    and "body resp = Some j"
  shows "fst (geocode w now s query limit) = py_get j ''results'' (JArr [])"
  using assms
  by (auto simp: geocode_def geocode_body_def requests_get_def checked_json_def
      raise_for_status_def r_json_def split: prod.splits sum.splits)

lemma geocode_effects:
  assumes "geocode w now s query limit = (r, s')"
  shows "fc_cache s' = fc_cache s"
    and "sent s' = sent s \<or> sent s' = sent s @ [geocode_request query limit]"
  using assms
  by (auto simp: geocode_def geocode_body_def requests_get_def
      split: option.splits prod.splits sum.splits)

lemma cold_geo_lookup: "cache_lookup ttl now (geo_cache cold k) = None"
  by (simp add: cold_def cache_lookup_def)

lemma demo_http_geocode:
  "http_get (demo_world g f) k (geocode_request query limit) = Inr \<lparr>status_code = 200, body = g\<rparr>"
  by (simp add: demo_world_def geocode_request_def)

text \<open>
  C4, as amended. \<^verbatim>\<open>geocode\<close> sends the limit as the \<open>count\<close> parameter and, when the
  service answers with a list under \<open>results\<close>, returns that list whole: it never
  shortens it. The length of the result is the length of the service's list.
\<close>

theorem geocode_returns_service_results:
  assumes "cache_lookup (60 * 60) now (geo_cache s (query, limit)) = None"
    and "http_get w (length (sent s)) (geocode_request query limit) = Inr resp"
    and "\<not> (400 \<le> status_code resp \<and> status_code resp < 600)"
    and "body resp = Some (JObj kvs)"
    and "map_of kvs ''results'' = Some (JArr cands)"
  shows "fst (geocode w now s query limit) = Inr (JArr cands)
       \<and> map_of (params (geocode_request query limit)) ''count'' = Some (JInt limit)"
  using geocode_miss [OF assms(1-4)] assms(5)
  by (simp add: dict_get_def geocode_request_def)

theorem geocode_returns_service_results_witness:
  "fst (geocode (demo_world (Some (JObj [(''results'', JArr two_places)])) None) 0 cold
          ''Springfield'' 5) = Inr (JArr two_places)
   \<and> map_of (params (geocode_request ''Springfield'' 5)) ''count'' = Some (JInt 5)"
  using geocode_returns_service_results
    [of 0 cold "''Springfield''" 5 "demo_world (Some (JObj [(''results'', JArr two_places)])) None"
       "\<lparr>status_code = 200, body = Some (JObj [(''results'', JArr two_places)])\<rparr>"
       "[(''results'', JArr two_places)]" two_places]
  by (simp add: cold_geo_lookup demo_http_geocode)

text \<open>
  C4 as stated fails: asked for one candidate, with a valid query, \<^verbatim>\<open>geocode\<close> returns
  the two candidates that the service sent.
\<close>

theorem geocode_exceeds_limit:
  "strip ''Springfield'' \<noteq> [] \<and> (1::int) \<le> 1 \<and> (1::int) \<le> 10
     \<and> fst (geocode (demo_world (Some (JObj [(''results'', JArr two_places)])) None) 0 cold
              ''Springfield'' 1) = Inr (JArr two_places)
     \<and> \<not> length two_places \<le> nat 1"
  by (simp add: strip_def isspace_def geocode_def geocode_body_def requests_get_def
      checked_json_def raise_for_status_def r_json_def cold_def cache_lookup_def demo_world_def
      geocode_request_def dict_get_def two_places_def)

text \<open>
  C10, as amended. When the service answers, without an error status, with a JSON
  object that has no \<open>results\<close> key, \<^verbatim>\<open>geocode\<close> returns the empty list: the value it
  returns for an answer with no candidate.
\<close>

theorem geocode_missing_results_key:
  assumes "cache_lookup (60 * 60) now (geo_cache s (query, limit)) = None"
    and "http_get w (length (sent s)) (geocode_request query limit) = Inr resp"
    and "\<not> (400 \<le> status_code resp \<and> status_code resp < 600)"
    and "body resp = Some (JObj kvs)"
    and "''results'' \<notin> fst ` set kvs"
  shows "fst (geocode w now s query limit) = Inr (JArr [])"
proof -
  from assms(5) have "map_of kvs ''results'' = None" by (simp add: map_of_eq_None_iff)
  with geocode_miss [OF assms(1-4)] show ?thesis by (simp add: dict_get_def)
qed

theorem geocode_missing_results_key_witness:
  "fst (geocode (demo_world (Some (JObj [(''generationtime_ms'', JNum 0.5)])) None) 0 cold
          ''Atlantis'' 5) = Inr (JArr [])"
  using geocode_missing_results_key
    [of 0 cold "''Atlantis''" 5 "demo_world (Some (JObj [(''generationtime_ms'', JNum 0.5)])) None"
       "\<lparr>status_code = 200, body = Some (JObj [(''generationtime_ms'', JNum 0.5)])\<rparr>"
       "[(''generationtime_ms'', JNum 0.5)]"]
  by (simp add: cold_geo_lookup demo_http_geocode)

text \<open>
  C10 as stated fails: a body that is valid JSON and has no \<open>results\<close> key, but is an
  array and not an object, makes \<^verbatim>\<open>geocode\<close> raise AttributeError.
\<close>

theorem geocode_array_body_raises:
  "fst (geocode (demo_world (Some (JArr [])) None) 0 cold ''Seoul'' 5) = Inl AttributeError"
  by (simp add: geocode_def geocode_body_def requests_get_def
      checked_json_def raise_for_status_def r_json_def cold_def cache_lookup_def demo_world_def
      geocode_request_def)

section \<open>Properties of the run\<close>

lemma strip_empty_iff: "strip s = [] \<longleftrightarrow> (\<forall>c \<in> set s. isspace c)"
proof
  assume e: "strip s = []"
  have "dropWhile isspace s = []"
  proof (rule ccontr)
    assume ne: "dropWhile isspace s \<noteq> []"
    then have "\<not> isspace (hd (dropWhile isspace s))" by (rule hd_dropWhile)
    moreover from ne have "hd (dropWhile isspace s) \<in> set (dropWhile isspace s)" by simp
    moreover from e have "\<forall>c \<in> set (dropWhile isspace s). isspace c"
      by (simp add: strip_def)
    ultimately show False by blast
  qed
  then show "\<forall>c \<in> set s. isspace c" by simp
next
  assume "\<forall>c \<in> set s. isspace c"
  then have d: "dropWhile isspace s = []" by simp
  show "strip s = []" unfolding strip_def d by simp
qed

text \<open>
  C9. A query that is empty after trimming, that is, one made of whitespace only,
  ends the run at once with the start notice: the state is unchanged, so no request
  was sent and nothing was cached, and \<^verbatim>\<open>geocode\<close> was not invoked.
\<close>

theorem blank_query_never_searches:
  assumes "strip (q inp) = [] \<or> (\<forall>c \<in> set (q inp). isspace c)"
  shows "pipeline w now inp s = (([Info_start], None), s)"
  using assms by (auto simp: pipeline_def strip_empty_iff)

theorem blank_query_never_searches_witness:
  "pipeline (demo_world None None) 0 (demo_inputs ''  '') cold = (([Info_start], None), cold)"
  using blank_query_never_searches [of "demo_inputs ''  ''" "demo_world None None" 0 cold]
  by (simp add: demo_inputs_def isspace_def)

text \<open>
  C3. When the search is triggered and \<^verbatim>\<open>geocode\<close> returns no candidate, the run
  consists of the geocode call and the warning, and ends there without an exception:
  \<^verbatim>\<open>fetch_forecast\<close> is not invoked, its cache is untouched, and any request sent
  during the run went to the geocoding endpoint.
\<close>

theorem no_results_without_forecast:
  assumes "search_btn inp" and "strip (q inp) \<noteq> []"
    and "geocode w now s (q inp) (max_results inp) = (Inr (JArr []), s')"
  shows "pipeline w now inp s =
           (([Spinner_geocode, Call_geocode (q inp) (max_results inp), Warning_no_results], None), s')
       \<and> fc_cache s' = fc_cache s
       \<and> (\<forall>rq \<in> set (drop (length (sent s)) (sent s')). url rq = GEOCODE_URL)"
proof -
  from assms have "pipeline w now inp s =
      (([Spinner_geocode, Call_geocode (q inp) (max_results inp), Warning_no_results], None), s')"
    by (simp add: pipeline_def)
  moreover from geocode_effects [OF assms(3)]
  have "fc_cache s' = fc_cache s"
    and "\<forall>rq \<in> set (drop (length (sent s)) (sent s')). url rq = GEOCODE_URL"
    by (auto simp: geocode_request_def)
  ultimately show ?thesis by simp
qed

lemma demo_geocode_cold:
  "geocode (demo_world (Some (JObj [(''results'', v)])) f) now cold query limit =
     (Inr v, \<lparr>geo_cache = [(query, limit) \<mapsto> (now, v)], fc_cache = Map.empty,
              sent = [geocode_request query limit]\<rparr>)"
  by (simp add: geocode_def geocode_body_def requests_get_def cold_def
      cache_lookup_def checked_json_def raise_for_status_def r_json_def demo_world_def
      geocode_request_def dict_get_def)

theorem no_results_without_forecast_witness:
  "pipeline (demo_world (Some (JObj [(''results'', JArr [])])) None) 0 (demo_inputs ''Atlantis'') cold =
     (([Spinner_geocode, Call_geocode ''Atlantis'' 5, Warning_no_results], None),
      \<lparr>geo_cache = [(''Atlantis'', 5) \<mapsto> (0, JArr [])], fc_cache = Map.empty,
       sent = [geocode_request ''Atlantis'' 5]\<rparr>)"
proof -
  have a: "search_btn (demo_inputs ''Atlantis'')" by (simp add: demo_inputs_def)
  have b: "strip (q (demo_inputs ''Atlantis'')) \<noteq> []"
    by (simp add: demo_inputs_def strip_def isspace_def)
  have c: "geocode (demo_world (Some (JObj [(''results'', JArr [])])) None) 0 cold
             (q (demo_inputs ''Atlantis'')) (max_results (demo_inputs ''Atlantis'')) =
           (Inr (JArr []), \<lparr>geo_cache = [(''Atlantis'', 5) \<mapsto> (0, JArr [])], fc_cache = Map.empty,
              sent = [geocode_request ''Atlantis'' 5]\<rparr>)"
    by (simp add: demo_geocode_cold demo_inputs_def)
  from no_results_without_forecast [OF a b c] show ?thesis by (simp add: demo_inputs_def)
qed

section \<open>Properties of the rendering\<close>

lemma map_fst_raw_frame: "map fst (raw_frame cols) = map fst cols"
  by (induction cols) (auto simp: raw_frame_def)

lemma map_fst_timed: "map fst (timed dts df) = map fst df"
  by (induction df) (auto simp: timed_def)

lemma map_of_raw_frame: "map_of (raw_frame cols) k = map_option (\<lambda>v. Values (items v)) (map_of cols k)"
  by (induction cols) (auto simp: raw_frame_def)

lemma map_of_timed:
  "map_of (timed dts df) k =
     (if k = ''time'' then map_option (\<lambda>c. Datetimes dts) (map_of df k) else map_of df k)"
  by (induction df) (auto simp: timed_def)

lemma time_frame_ok:
  assumes "cols \<noteq> []" and "parallel_arrays cols" and "map_of cols ''time'' = Some (JArr ts)"
    and "to_datetime w ts = Inr dts"
  shows "time_frame w (JObj cols) = Inr (timed dts (raw_frame cols))"
  using assms
  by (simp add: time_frame_def DataFrame_def convert_time_def map_of_raw_frame
      raw_frame_def [symmetric] timed_def [symmetric])

lemma time_series_frame:
  assumes "time_series w block"
  obtains cols ts dts where "block = JObj cols" and "cols \<noteq> []" and "distinct (map fst cols)"
    and "map_of cols ''time'' = Some (JArr ts)" and "to_datetime w ts = Inr dts"
    and "time_frame w block = Inr (timed dts (raw_frame cols))"
proof -
  from assms obtain cols where b: "block = JObj cols" and ne: "cols \<noteq> []"
    and d: "distinct (map fst cols)" and p: "parallel_arrays cols"
    and t: "(case map_of cols ''time'' of
             Some (JArr ts) \<Rightarrow> (case to_datetime w ts of Inr dts \<Rightarrow> True | Inl e \<Rightarrow> False)
           | _ \<Rightarrow> False)"
    by (auto simp: time_series_def split: json.splits)
  from t obtain ts dts where ts: "map_of cols ''time'' = Some (JArr ts)" "to_datetime w ts = Inr dts"
    by (auto split: option.splits json.splits sum.splits)
  from time_frame_ok [OF ne p ts] b ne d ts that show thesis by blast
qed

lemma chart_titles_append: "chart_titles (xs @ ys) = chart_titles xs @ chart_titles ys"
  by (induction xs rule: chart_titles.induct) auto

lemma chart_titles_charts:
  assumes "map_of df ''time'' \<noteq> None"
  shows "chart_titles (concat (map (chart df) sel)) = filter (\<lambda>v. v \<in> set (map fst df)) sel"
proof (induction sel)
  case Nil
  show ?case by simp
next
  case (Cons v sel)
  from assms obtain ts where ts: "map_of df ''time'' = Some ts" by auto
  show ?case
  proof (cases "map_of df v")
    case None
    then have "v \<notin> set (map fst df)" by (simp add: map_of_eq_None_iff)
    with None Cons ts show ?thesis by (simp add: chart_def)
  next
    case (Some ys)
    then have "v \<in> set (map fst df)" by (metis map_of_eq_None_iff option.distinct(1) set_map)
    with Some Cons ts show ?thesis by (simp add: chart_def chart_titles_append)
  qed
qed

lemma hourly_charts_dict:
  "hourly_charts w (JObj doc) sel =
     (let hourly = dict_get doc ''hourly'' (JObj []) in
      if truthy hourly \<and> sel \<noteq> [] then
        (case time_frame w hourly of
           Inl e \<Rightarrow> ([], Some e)
         | Inr df_hour \<Rightarrow> (Subheader_hourly # concat (map (chart df_hour) sel), None))
      else ([], None))"
  by (simp add: hourly_charts_def Let_def)

text \<open>
  C5. Take a forecast document whose hourly block is absent, null or empty, or is a
  time series. For every selection, the hourly charts raise no exception, and the
  charts drawn are, in the order of the selection, one for each selected variable
  that is a column of the block; a selected variable that is no column draws nothing.
  So a selection of absent variables only draws no chart.
\<close>

theorem hourly_charts_skip_absent:
  assumes "data = JObj doc" and "hourly = dict_get doc ''hourly'' (JObj [])"
    and "\<not> truthy hourly \<or> time_series w hourly"
  shows "snd (hourly_charts w data sel) = None
       \<and> chart_titles (fst (hourly_charts w data sel)) = filter (\<lambda>v. v \<in> set (columns hourly)) sel"
proof (cases "truthy hourly \<and> sel \<noteq> []")
  case False
  have "filter (\<lambda>v. v \<in> set (columns hourly)) sel = []" if "\<not> truthy hourly"
    using that by (cases hourly) auto
  with False assms(3) have "filter (\<lambda>v. v \<in> set (columns hourly)) sel = []" by auto
  moreover from False have "hourly_charts w data sel = ([], None)"
    unfolding assms(1) hourly_charts_dict assms(2) [symmetric] by (auto simp: Let_def)
  ultimately show ?thesis by simp
next
  case True
  with assms(3) have "time_series w hourly" by simp
  then obtain cols ts dts where b: "hourly = JObj cols"
    and t: "map_of cols ''time'' = Some (JArr ts)"
    and f: "time_frame w hourly = Inr (timed dts (raw_frame cols))"
    by (rule time_series_frame)
  from t have "map_of (timed dts (raw_frame cols)) ''time'' \<noteq> None"
    by (simp add: map_of_timed map_of_raw_frame)
  from chart_titles_charts [OF this, of sel] b
  have "chart_titles (concat (map (chart (timed dts (raw_frame cols))) sel)) =
          filter (\<lambda>v. v \<in> set (columns hourly)) sel"
    by (simp add: map_fst_timed map_fst_raw_frame)
  moreover from True f
  have "hourly_charts w data sel =
          (Subheader_hourly # concat (map (chart (timed dts (raw_frame cols))) sel), None)"
    unfolding assms(1) hourly_charts_dict assms(2) [symmetric] by (simp add: Let_def)
  ultimately show ?thesis by simp
qed

theorem hourly_charts_skip_absent_witness:
  "snd (hourly_charts (demo_world None None) sample_doc [''weathercode'', ''temperature_2m'']) = None
   \<and> chart_titles (fst (hourly_charts (demo_world None None) sample_doc
                             [''weathercode'', ''temperature_2m''])) = [''temperature_2m'']"
  using hourly_charts_skip_absent
    [of sample_doc sample_fields "JObj sample_hourly" "demo_world None None"
       "[''weathercode'', ''temperature_2m'']"]
  by (simp add: sample_doc_def sample_fields_def sample_hourly_def dict_get_def time_series_def
      parallel_arrays_def demo_world_def)

lemma frame_select_sub:
  assumes "distinct (map fst df)" and "set xs \<subseteq> set df"
  shows "frame_select df (map fst xs) = Inr xs"
  using assms(2)
proof (induction xs)
  case Nil
  show ?case by simp
next
  case (Cons x xs)
  obtain c col where x: "x = (c, col)" by (cases x)
  with Cons.prems have "(c, col) \<in> set df" by simp
  with assms(1) have "map_of df c = Some col" by simp
  moreover from Cons have "frame_select df (map fst xs) = Inr xs" by simp
  ultimately show ?case using x by simp
qed

lemma filter_keys: "filter P (map fst df) = map fst (filter (\<lambda>(k, c). P k) df)"
  by (induction df) auto

lemma frame_select_filter:
  assumes "distinct (map fst df)"
  shows "frame_select df (filter P (map fst df)) = Inr (filter (\<lambda>(k, c). P k) df)"
  unfolding filter_keys by (rule frame_select_sub [OF assms]) auto

lemma filter_timed_raw:
  assumes "\<not> P ''time''"
  shows "filter (\<lambda>(k, c). P k) (timed dts (raw_frame cols)) =
           raw_frame (filter (\<lambda>(k, v). P k) cols)"
  using assms by (induction cols) (auto simp: timed_def raw_frame_def split: if_splits)

lemma daily_table_dict:
  "daily_table w (JObj doc) sel =
     (let daily = dict_get doc ''daily'' (JObj []) in
      if truthy daily \<and> sel \<noteq> [] then
        (case time_frame w daily of
           Inl e \<Rightarrow> ([Subheader_daily], Some e)
         | Inr df_daily \<Rightarrow>
             (case frame_select df_daily
                     (''time'' # filter (\<lambda>c. c \<in> set sel) (map fst df_daily)) of
                Inl e \<Rightarrow> ([Subheader_daily], Some e)
              | Inr tbl \<Rightarrow> ([Subheader_daily, Dataframe tbl], None)))
      else ([], None))"
  by (simp add: daily_table_def Let_def)

text \<open>
  C6. Take a forecast document whose daily block is a time series, and a non-empty
  selection among the daily options of the widget. The daily table is drawn, and it
  consists of the converted time column followed by the columns of the response that
  are selected, and no other; each column holds the values of the response's array in
  the order of the response, so the rows are not sorted again.
\<close>

theorem daily_table_columns:
  assumes "data = JObj doc" and "dict_get doc ''daily'' (JObj []) = JObj cols"
    and "time_series w (JObj cols)"
    and "map_of cols ''time'' = Some (JArr ts)" and "to_datetime w ts = Inr dts"
    and "sel \<noteq> []" and "set sel \<subseteq> set daily_choices"
  shows "daily_table w data sel =
           ([Subheader_daily,
             Dataframe ((''time'', Datetimes dts)
                        # map (\<lambda>(k, v). (k, Values (items v))) (filter (\<lambda>(k, v). k \<in> set sel) cols))],
            None)"
proof -
  from assms(3) obtain cols' ts' dts' where "JObj cols = JObj cols'" and ne: "cols' \<noteq> []"
    and d: "distinct (map fst cols')"
    and t': "map_of cols' ''time'' = Some (JArr ts')" and c': "to_datetime w ts' = Inr dts'"
    and f': "time_frame w (JObj cols) = Inr (timed dts' (raw_frame cols'))"
    by (rule time_series_frame)
  with assms(4,5) have f: "time_frame w (JObj cols) = Inr (timed dts (raw_frame cols))"
    and ne: "cols \<noteq> []" and d: "distinct (map fst cols)" by auto
  let ?df = "timed dts (raw_frame cols)"
  have dd: "distinct (map fst ?df)" using d by (simp add: map_fst_timed map_fst_raw_frame)
  have nt: "''time'' \<notin> set sel" using assms(7) by (auto simp: daily_choices_def)
  have tm: "map_of ?df ''time'' = Some (Datetimes dts)"
    using assms(4) by (simp add: map_of_timed map_of_raw_frame)
  have "frame_select ?df (filter (\<lambda>c. c \<in> set sel) (map fst ?df)) =
          Inr (filter (\<lambda>(k, c). k \<in> set sel) ?df)"
    by (rule frame_select_filter [OF dd])
  also have "filter (\<lambda>(k, c). k \<in> set sel) ?df = raw_frame (filter (\<lambda>(k, v). k \<in> set sel) cols)"
    using filter_timed_raw [of "\<lambda>k. k \<in> set sel" dts cols] nt by simp
  finally have "frame_select ?df (''time'' # filter (\<lambda>c. c \<in> set sel) (map fst ?df)) =
      Inr ((''time'', Datetimes dts) # raw_frame (filter (\<lambda>(k, v). k \<in> set sel) cols))"
    using tm by simp
  with f ne assms(6) show ?thesis
    unfolding assms(1) daily_table_dict assms(2) by (simp add: raw_frame_def)
qed

theorem daily_table_columns_witness:
  "daily_table (demo_world None None) sample_doc
       [''precipitation_sum'', ''temperature_2m_min'', ''temperature_2m_max''] =
     ([Subheader_daily,
       Dataframe [(''time'', Datetimes [86400, 0]),
                  (''temperature_2m_max'', Values [JNum 24, JNum 22.5]),
                  (''precipitation_sum'', Values [JInt 0, JNum 1.2])]], None)"
  using daily_table_columns
    [of sample_doc sample_fields sample_daily "demo_world None None" "[JInt 86400, JInt 0]"
       "[86400, 0]" "[''precipitation_sum'', ''temperature_2m_min'', ''temperature_2m_max'']"]
  by (simp add: sample_doc_def sample_fields_def sample_daily_def dict_get_def time_series_def
      parallel_arrays_def demo_world_def daily_choices_def)

lemma current_summary_dict:
  "current_summary (JObj doc) =
     (let current = dict_get doc ''current_weather'' (JObj []) in
      if truthy current then
        (case current of
           JObj c \<Rightarrow>
             ([Metric_temperature (dict_get c ''temperature'' JNull),
               Write_wind (dict_get c ''windspeed'' JNull) (dict_get c ''winddirection'' JNull),
               Write_observed (dict_get c ''time'' JNull)], None)
         | _ \<Rightarrow> ([], Some AttributeError))
      else ([Write_no_current], None))"
  by (simp add: current_summary_def Let_def)

text \<open>
  C7. Take a forecast document whose current-weather block is a dict, or is absent or
  null. When the block is non-empty, the summary shows its temperature, its wind
  speed and direction and its observation time; otherwise it shows the notice that
  there is no current data. Either way it shows something and raises nothing.
\<close>

theorem current_summary_shown:
  assumes "data = JObj doc" and "current = dict_get doc ''current_weather'' (JObj [])"
    and "current = JObj c \<or> \<not> truthy current"
  shows "current_summary data =
           (if truthy current then
              ([Metric_temperature (dict_get c ''temperature'' JNull),
                Write_wind (dict_get c ''windspeed'' JNull) (dict_get c ''winddirection'' JNull),
                Write_observed (dict_get c ''time'' JNull)], None)
            else ([Write_no_current], None))
       \<and> fst (current_summary data) \<noteq> [] \<and> snd (current_summary data) = None"
  using assms(3) unfolding assms(1) current_summary_dict assms(2) [symmetric]
  by (auto simp: Let_def)

theorem current_summary_shown_witness:
  "current_summary sample_doc =
     ([Metric_temperature (JNum 21.5), Write_wind (JNum 3.2) (JInt 270),
       Write_observed (JStr ''2024-05-01T12:00'')], None)"
  using current_summary_shown [of sample_doc sample_fields "JObj sample_current" sample_current]
  by (simp add: sample_doc_def sample_fields_def sample_current_def dict_get_def)

section \<open>Properties of the selection\<close>

lemma py_index_first:
  "i < length xs \<Longrightarrow> xs ! i = y \<Longrightarrow> \<forall>j<i. xs ! j \<noteq> y \<Longrightarrow> py_index xs y = Inr i"
proof (induction xs arbitrary: i)
  case Nil
  then show ?case by simp
next
  case (Cons x xs)
  show ?case
  proof (cases i)
    case 0
    with Cons.prems show ?thesis by simp
  next
    case (Suc k)
    with Cons.prems have "x \<noteq> y" by auto
    moreover from Suc Cons.prems have "k < length xs" "xs ! k = y" "\<forall>j<k. xs ! j \<noteq> y" by auto
    then have "py_index xs y = Inr k" by (rule Cons.IH)
    ultimately show ?thesis using Suc by simp
  qed
qed

lemma build_rows_nth:
  "build_rows w cands = Inr rows \<Longrightarrow>
     length rows = length cands \<and> (\<forall>i<length cands. mk_row w (cands ! i) = Inr (rows ! i))"
proof (induction cands arbitrary: rows)
  case Nil
  then show ?case by simp
next
  case (Cons r rs)
  then obtain x xs where x: "mk_row w r = Inr x" and xs: "build_rows w rs = Inr xs"
    and rows: "rows = x # xs"
    by (auto split: sum.splits)
  from Cons.IH [OF xs] x rows show ?case by (auto simp: nth_Cons split: nat.splits)
qed

lemma mk_row_dict:
  assumes "mk_row w (JObj kvs) = Inr r"
  shows "row_name r = display_name w kvs" and "map_of kvs ''latitude'' = Some (row_lat r)"
    and "map_of kvs ''longitude'' = Some (row_lon r)"
    and "row_timezone r = dict_get kvs ''timezone'' JNull"
  using assms by (auto simp: mk_row_def py_getitem_def split: option.splits)

text \<open>
  C8. Let the rows be built from a candidate list, and let candidate \<open>i\<close> be the first
  one whose display name is the selected name; other candidates after it may share the
  name. Then the selection resolves to candidate \<open>i\<close>: to its coordinates, and to its
  timezone, or to \<open>UTC\<close> when the candidate has no timezone or an empty one.
\<close>

theorem selection_resolves_first_match:
  assumes rows: "build_rows w cands = Inr rows"
    and i: "i < length cands" and c: "cands ! i = JObj kvs"
    and name: "display_name w kvs = sel"
    and first: "\<forall>j<i. row_name (rows ! j) \<noteq> sel"
    and lat: "map_of kvs ''latitude'' = Some jlat" "py_float w jlat = Inr lat"
    and lon: "map_of kvs ''longitude'' = Some jlon" "py_float w jlon = Inr lon"
  shows "resolve w rows sel =
           Inr (lat, lon, case map_of kvs ''timezone'' of
                            None \<Rightarrow> JStr ''UTC''
                          | Some t \<Rightarrow> if truthy t then t else JStr ''UTC'')"
proof -
  from build_rows_nth [OF rows] i c
  have len: "i < length rows" and mk: "mk_row w (JObj kvs) = Inr (rows ! i)" by auto
  note r = mk_row_dict [OF mk]
  from len r(1) name first have "py_index (map row_name rows) sel = Inr i"
    by (intro py_index_first) auto
  moreover have "py_or (row_timezone (rows ! i)) (JStr ''UTC'') =
      (case map_of kvs ''timezone'' of None \<Rightarrow> JStr ''UTC''
       | Some t \<Rightarrow> if truthy t then t else JStr ''UTC'')"
    by (simp add: r(4) dict_get_def py_or_def split: option.splits)
  ultimately show ?thesis using r(2,3) lat lon by (simp add: resolve_def)
qed

theorem selection_resolves_first_match_witness:
  "resolve (demo_world None None) two_rows ''Springfield, United States ()'' =
     Inr (39.8, -89.6, JStr ''UTC'')
   \<and> map row_name two_rows = [''Springfield, United States ()'', ''Springfield, United States ()'']"
  using selection_resolves_first_match
    [of "demo_world None None" two_places two_rows 0
       "[(''name'', JStr ''Springfield''), (''country'', JStr ''United States''),
         (''admin1'', JNull), (''latitude'', JNum 39.8), (''longitude'', JNum (-89.6))]"
       "''Springfield, United States ()''" "JNum 39.8" "39.8" "JNum (-89.6)" "-89.6"]
  by (simp add: two_places_def two_rows_def mk_row_def py_getitem_def display_name_def
      py_str_def py_or_def dict_get_def py_float_def)

end
